theory Spec2Isabelle
  imports Complex_Main
begin

section \<open>run\_nima.py: a NIMA scorer for one image\<close>

text \<open>
  The script builds a MobileNet-based NIMA network, loads its weights from a file beside
  the script, scores one image and prints \<open>mean,std\<close>. The deep-learning framework, the
  image decoder and the file system are external: they enter the model as the fields of
  a record of functions, and every effect of the script (a line printed, a file opened,
  a network built) is written into an explicit world state. A Python float is a
  finite real number, an infinity or NaN; arithmetic on finite values is exact, so
  rounding error and overflow are outside the model.
\<close>

subsection \<open>Floats\<close>

text \<open>The values of a float, and the arithmetic of IEEE 754 on the values that are not
  finite.\<close>

datatype pyfloat = Finite real | PosInf | NegInf | NaN

fun is_finite :: "pyfloat \<Rightarrow> bool" where
  "is_finite (Finite x) = True"
| "is_finite v = False"

fun fneg :: "pyfloat \<Rightarrow> pyfloat" where
  "fneg (Finite x) = Finite (- x)"
| "fneg PosInf = NegInf"
| "fneg NegInf = PosInf"
| "fneg NaN = NaN"

fun fadd :: "pyfloat \<Rightarrow> pyfloat \<Rightarrow> pyfloat" where
  "fadd (Finite x) (Finite y) = Finite (x + y)"
| "fadd NaN b = NaN"
| "fadd a NaN = NaN"
| "fadd PosInf NegInf = NaN"
| "fadd NegInf PosInf = NaN"
| "fadd PosInf b = PosInf"
| "fadd a PosInf = PosInf"
| "fadd NegInf b = NegInf"
| "fadd a NegInf = NegInf"

definition fsub :: "pyfloat \<Rightarrow> pyfloat \<Rightarrow> pyfloat" where
  "fsub a b = fadd a (fneg b)"

text \<open>The sign of an infinity times a finite factor; zero times infinity is NaN.\<close>

definition scale_inf :: "real \<Rightarrow> pyfloat \<Rightarrow> pyfloat" where
  "scale_inf x v = (if x = 0 then NaN else if 0 < x then v else fneg v)"

fun fmul :: "pyfloat \<Rightarrow> pyfloat \<Rightarrow> pyfloat" where
  "fmul (Finite x) (Finite y) = Finite (x * y)"
| "fmul NaN b = NaN"
| "fmul a NaN = NaN"
| "fmul (Finite x) b = scale_inf x b"
| "fmul a (Finite y) = scale_inf y a"
| "fmul PosInf b = b"
| "fmul NegInf b = fneg b"

text \<open>\<open>x ** 2\<close>.\<close>

definition fsquare :: "pyfloat \<Rightarrow> pyfloat" where
  "fsquare x = fmul x x"

text \<open>\<open>np.sqrt\<close>: NaN for a negative argument.\<close>

fun fsqrt :: "pyfloat \<Rightarrow> pyfloat" where
  "fsqrt (Finite x) = (if x < 0 then NaN else Finite (sqrt x))"
| "fsqrt PosInf = PosInf"
| "fsqrt NegInf = NaN"
| "fsqrt NaN = NaN"

text \<open>\<open>np.sum\<close> over a one-dimensional array.\<close>

fun fsum :: "pyfloat list \<Rightarrow> pyfloat" where
  "fsum [] = Finite 0"
| "fsum (x # xs) = fadd x (fsum xs)"

subsection \<open>Exceptions, effects and the world\<close>

type_synonym path = string

text \<open>What the framework and the decoder can raise; they never raise \<open>SystemExit\<close>.\<close>

datatype fw_error = WeightsLoadError string | ImageDecodeError string | InferenceError string

datatype exn = SystemExit nat | IndexError | Framework fw_error

datatype pooling = AvgPooling | MaxPooling

datatype activation = Softmax | Relu | Linear

text \<open>Keras layers as the script calls their constructors, and symbolic tensors of the
  functional API: a tensor is the input placeholder or a layer applied to a tensor.\<close>

datatype layer =
    MobileNetLayers bool "pooling option" "string option"
  | Dropout real
  | Dense nat activation

datatype tensor = Input "nat option \<times> nat option \<times> nat" | Apply layer tensor

record 'w keras_model =
  inputs :: tensor
  outputs :: tensor
  params :: "'w option"

text \<open>What a run does to its surroundings, in order: building a network, opening the
  weights file or an image file for reading, writing a file, a forward pass.\<close>

datatype event =
    BuildNetwork tensor
  | ReadWeightsFile path
  | ReadImageFile path
  | WriteFile path
  | Inference

record world =
  stdout :: string
  trace :: "event list"

text \<open>The external collaborators: weight deserialisation, image decoding, array
  preprocessing and the forward pass.\<close>

record ('w, 'img, 'arr) framework =
  read_weights :: "path \<Rightarrow> tensor \<Rightarrow> fw_error + 'w"
  decode_image :: "path \<Rightarrow> nat \<times> nat \<Rightarrow> fw_error + 'img"
  img_to_array :: "'img \<Rightarrow> 'arr"
  expand_dims :: "'arr \<Rightarrow> nat \<Rightarrow> 'arr"
  preprocess_input :: "'arr \<Rightarrow> 'arr"
  forward :: "'w keras_model \<Rightarrow> 'arr \<Rightarrow> fw_error + pyfloat list list"

text \<open>A computation takes the world and returns a value or an exception, and the world
  as it left it.\<close>

type_synonym 'a prog = "world \<Rightarrow> (exn + 'a) \<times> world"

definition returnp :: "'a \<Rightarrow> 'a prog" where
  "returnp x w = (Inr x, w)"

definition raisep :: "exn \<Rightarrow> 'a prog" where
  "raisep e w = (Inl e, w)"

definition bindp :: "'a prog \<Rightarrow> ('a \<Rightarrow> 'b prog) \<Rightarrow> 'b prog" where
  "bindp m f w = (case m w of (Inl e, w') \<Rightarrow> (Inl e, w') | (Inr x, w') \<Rightarrow> f x w')"

definition log_event :: "event \<Rightarrow> unit prog" where
  "log_event e w = (Inr (), w\<lparr>trace := trace w @ [e]\<rparr>)"

definition lift_fw :: "fw_error + 'a \<Rightarrow> 'a prog" where
  "lift_fw r = (case r of Inl e \<Rightarrow> raisep (Framework e) | Inr x \<Rightarrow> returnp x)"

definition newline :: char where
  "newline = CHR 0x0A"

text \<open>\<open>print(s)\<close>: the text and one line terminator, on standard output.\<close>

definition print :: "string \<Rightarrow> unit prog" where
  "print s w = (Inr (), w\<lparr>stdout := stdout w @ s @ [newline]\<rparr>)"

text \<open>\<open>sys.exit(n)\<close> raises \<open>SystemExit\<close>.\<close>

definition sys_exit :: "nat \<Rightarrow> 'a prog" where
  "sys_exit n = raisep (SystemExit n)"

subsection \<open>The framework calls of the script\<close>

text \<open>\<open>MobileNet(input_shape, include_top, pooling, weights)\<close>: the backbone applied
  to a fresh input placeholder; returns its input and output tensors.\<close>

definition MobileNet ::
  "nat option \<times> nat option \<times> nat \<Rightarrow> bool \<Rightarrow> pooling option \<Rightarrow> string option \<Rightarrow> tensor \<times> tensor" where
  "MobileNet input_shape include_top pooling weights =
     (Input input_shape, Apply (MobileNetLayers include_top pooling weights) (Input input_shape))"

definition Model :: "tensor \<Rightarrow> tensor \<Rightarrow> 'w keras_model" where
  "Model i out = \<lparr>inputs = i, outputs = out, params = None\<rparr>"

text \<open>\<open>model.load_weights(path)\<close> opens the file for reading and fills the parameters.\<close>

definition load_weights ::
  "('w, 'img, 'arr) framework \<Rightarrow> 'w keras_model \<Rightarrow> path \<Rightarrow> 'w keras_model prog" where
  "load_weights fw model weights_path =
     bindp (log_event (ReadWeightsFile weights_path)) (\<lambda>_.
     bindp (lift_fw (read_weights fw weights_path (outputs model))) (\<lambda>ws.
     returnp (model\<lparr>params := Some ws\<rparr>)))"

text \<open>\<open>load_img(path, target_size)\<close> opens and decodes the image file.\<close>

definition load_img ::
  "('w, 'img, 'arr) framework \<Rightarrow> path \<Rightarrow> nat \<times> nat \<Rightarrow> 'img prog" where
  "load_img fw image_path target_size =
     bindp (log_event (ReadImageFile image_path)) (\<lambda>_.
     lift_fw (decode_image fw image_path target_size))"

text \<open>\<open>model.predict(x, verbose=0)\<close>: one forward pass, nothing printed.\<close>

definition predict ::
  "('w, 'img, 'arr) framework \<Rightarrow> 'w keras_model \<Rightarrow> 'arr \<Rightarrow> pyfloat list list prog" where
  "predict fw model x =
     bindp (log_event Inference) (\<lambda>_. lift_fw (forward fw model x))"

text \<open>\<open>xs[0]\<close> raises \<open>IndexError\<close> on an empty sequence.\<close>

definition index0 :: "'a list \<Rightarrow> 'a prog" where
  "index0 xs = (case xs of [] \<Rightarrow> raisep IndexError | x # _ \<Rightarrow> returnp x)"

subsection \<open>Score statistics\<close>

text \<open>Modelled from the spec: \<open>utils/score_utils.py\<close>, which defines \<open>mean_score\<close>, is not
  among the sources. The spec gives: mean is the sum over i = 1..10 of i times p[i-1]; the
  sum and the products are those of floats.\<close>

definition mean_score :: "pyfloat list \<Rightarrow> pyfloat" where
  "mean_score p = fsum (map (\<lambda>i. fmul (Finite (real i)) (p ! (i - 1))) [1..<11])"

text \<open>Modelled from the spec: \<open>utils/score_utils.py\<close>, which defines \<open>std_score\<close>, is not
  among the sources. The spec gives: variance is the sum over i = 1..10 of (i - mean) squared times
  p[i-1], and std = sqrt(variance); the operations are those of floats.\<close>

definition std_score :: "pyfloat list \<Rightarrow> pyfloat" where
  "std_score p =
     fsqrt (fsum (map (\<lambda>i. fmul (fsquare (fsub (Finite (real i)) (mean_score p))) (p ! (i - 1)))
                   [1..<11]))"

subsection \<open>load\_nima\_model and evaluate\_image\<close>

text \<open>The three constructor calls and \<open>Model(...)\<close> build the network; that effect is
  recorded as one \<open>BuildNetwork\<close> event carrying the output tensor, before the weights
  are loaded.\<close>

definition load_nima_model ::
  "('w, 'img, 'arr) framework \<Rightarrow> path \<Rightarrow> 'w keras_model prog" where
  "load_nima_model fw weights_path =
     (let base_model = MobileNet (None, None, 3) False (Some AvgPooling) None;
          x = Apply (Dropout 0.75) (snd base_model);
          x = Apply (Dense 10 Softmax) x;
          model = Model (fst base_model) x
      in bindp (log_event (BuildNetwork x)) (\<lambda>_.
         bindp (load_weights fw model weights_path) (\<lambda>model.
         returnp model)))"

definition evaluate_image ::
  "('w, 'img, 'arr) framework \<Rightarrow> path \<Rightarrow> 'w keras_model \<Rightarrow> (pyfloat \<times> pyfloat) prog" where
  "evaluate_image fw image_path model =
     bindp (load_img fw image_path (224, 224)) (\<lambda>img.
     let x = img_to_array fw img;
         x = expand_dims fw x 0;
         x = preprocess_input fw x
     in bindp (predict fw model x) (\<lambda>batch.
        bindp (index0 batch) (\<lambda>scores.
        let mean = mean_score scores;
            std = std_score scores
        in returnp (mean, std))))"

subsection \<open>Paths (posixpath)\<close>

definition startswith :: "string \<Rightarrow> string \<Rightarrow> bool" where
  "startswith s pre = (take (length pre) s = pre)"

definition endswith :: "string \<Rightarrow> string \<Rightarrow> bool" where
  "endswith s suf = (length suf \<le> length s \<and> drop (length s - length suf) s = suf)"

definition isabs :: "path \<Rightarrow> bool" where
  "isabs s = startswith s ''/''"

text \<open>\<open>os.path.join(a, *p)\<close>: an absolute component discards what came before it.\<close>

fun join :: "path \<Rightarrow> path list \<Rightarrow> path" where
  "join path [] = path"
| "join path (b # bs) =
     join (if startswith b ''/'' then b
           else if path = [] \<or> endswith path ''/'' then path @ b
           else path @ ''/'' @ b) bs"

text \<open>\<open>s.split(sep)\<close> for a one-character separator.\<close>

fun split_on :: "char \<Rightarrow> string \<Rightarrow> string list" where
  "split_on c [] = [[]]"
| "split_on c (x # xs) =
     (if x = c then [] # split_on c xs
      else (case split_on c xs of [] \<Rightarrow> [[x]] | y # ys \<Rightarrow> (x # y) # ys))"

text \<open>\<open>sep.join(comps)\<close>.\<close>

fun sep_join :: "string \<Rightarrow> string list \<Rightarrow> string" where
  "sep_join sep [] = []"
| "sep_join sep [c] = c"
| "sep_join sep (c # cs) = c @ sep @ sep_join sep cs"

text \<open>The loop of \<open>normpath\<close> over the components, \<open>new_comps\<close> as accumulator.\<close>

fun norm_comps :: "nat \<Rightarrow> string list \<Rightarrow> string list \<Rightarrow> string list" where
  "norm_comps initial_slashes new_comps [] = new_comps"
| "norm_comps initial_slashes new_comps (cmp # comps) =
     (if cmp = [] \<or> cmp = ''.'' then norm_comps initial_slashes new_comps comps
      else if cmp \<noteq> ''..'' \<or> (initial_slashes = 0 \<and> new_comps = [])
              \<or> (new_comps \<noteq> [] \<and> last new_comps = ''..'')
        then norm_comps initial_slashes (new_comps @ [cmp]) comps
      else if new_comps \<noteq> [] then norm_comps initial_slashes (butlast new_comps) comps
      else norm_comps initial_slashes new_comps comps)"

definition normpath :: "path \<Rightarrow> path" where
  "normpath path =
     (if path = [] then ''.''
      else
        let initial_slashes =
              (if startswith path ''/''
               then (if startswith path ''//'' \<and> \<not> startswith path ''///'' then 2 else 1)
               else 0);
            comps = norm_comps initial_slashes [] (split_on CHR ''/'' path);
            p = replicate initial_slashes CHR ''/'' @ sep_join ''/'' comps
        in if p = [] then ''.'' else p)"

text \<open>\<open>os.path.abspath\<close>, with the current working directory as a parameter.\<close>

definition abspath :: "path \<Rightarrow> path \<Rightarrow> path" where
  "abspath cwd path = normpath (if \<not> isabs path then join cwd [path] else path)"

definition rstrip :: "char \<Rightarrow> string \<Rightarrow> string" where
  "rstrip c s = rev (dropWhile (\<lambda>x. x = c) (rev s))"

text \<open>\<open>os.path.dirname\<close>: everything up to the last slash, trailing slashes removed
  unless the head is slashes only.\<close>

definition dirname :: "path \<Rightarrow> path" where
  "dirname p =
     (let i = length p - length (takeWhile (\<lambda>x. x \<noteq> CHR ''/'') (rev p));
          head = take i p
      in if head \<noteq> [] \<and> head \<noteq> replicate (length head) CHR ''/''
         then rstrip CHR ''/'' head else head)"

subsection \<open>Formatting a number with two decimals\<close>

text \<open>\<open>f"{x:.2f}"\<close>: for a finite \<open>x\<close> the decimal expansion rounded to hundredths,
  ties to even, with a minus sign for a negative \<open>x\<close>; \<open>inf\<close>, \<open>-inf\<close> and \<open>nan\<close>
  for the other values.\<close>

definition round_half_even :: "real \<Rightarrow> int" where
  "round_half_even y =
     (let f = \<lfloor>y\<rfloor>; d = y - of_int f
      in if d < 1 / 2 then f else if 1 / 2 < d then f + 1
         else if even f then f else f + 1)"

text \<open>The character of a decimal digit \<open>d < 10\<close>.\<close>

definition digit_char :: "nat \<Rightarrow> char" where
  "digit_char d = ''0123456789'' ! d"

fun str_nat :: "nat \<Rightarrow> string" where
  "str_nat n = (if n < 10 then [digit_char n] else str_nat (n div 10) @ [digit_char (n mod 10)])"

declare str_nat.simps [simp del]

definition format_fixed :: "real \<Rightarrow> string" where
  "format_fixed x =
     (let n = nat (round_half_even (\<bar>x\<bar> * 100))
      in (if x < 0 then ''-'' else []) @ str_nat (n div 100) @ ''.''
         @ [digit_char (n mod 100 div 10), digit_char (n mod 10)])"

definition format_2f :: "pyfloat \<Rightarrow> string" where
  "format_2f v =
     (case v of
        Finite x \<Rightarrow> format_fixed x
      | PosInf \<Rightarrow> ''inf''
      | NegInf \<Rightarrow> ''-inf''
      | NaN \<Rightarrow> ''nan'')"

subsection \<open>main and the process\<close>

record process =
  argv :: "string list"
  script_file :: path
  cwd :: path

definition usage :: string where
  "usage = ''Usage: python run_nima.py <image_path>''"

definition main :: "('w, 'img, 'arr) framework \<Rightarrow> process \<Rightarrow> unit prog" where
  "main fw pr =
     bindp (if length (argv pr) \<noteq> 2
            then bindp (print usage) (\<lambda>_. sys_exit 1)
            else returnp ()) (\<lambda>_.
     let image_path = argv pr ! 1;
         BASE_DIR = dirname (abspath (cwd pr) (script_file pr));
         weights_path = join BASE_DIR [''model'', ''mobilenet_weights.h5'']
     in bindp (load_nima_model fw weights_path) (\<lambda>model.
        bindp (evaluate_image fw image_path model) (\<lambda>(mean_score_value, std_score_value).
        print (format_2f mean_score_value @ '','' @ format_2f std_score_value))))"

text \<open>The interpreter around \<open>main()\<close>: exit status 0 when it returns, the code of an
  uncaught \<open>SystemExit\<close>, and 1 (with a traceback on standard error) for any other
  uncaught exception.\<close>

record outcome =
  out :: string
  status :: nat
  uncaught :: "exn option"
  events :: "event list"

definition run_nima :: "('w, 'img, 'arr) framework \<Rightarrow> process \<Rightarrow> outcome" where
  "run_nima fw pr =
     (case main fw pr \<lparr>stdout = [], trace = []\<rparr> of
        (Inr _, w) \<Rightarrow> \<lparr>out = stdout w, status = 0, uncaught = None, events = trace w\<rparr>
      | (Inl (SystemExit n), w) \<Rightarrow>
          \<lparr>out = stdout w, status = n, uncaught = Some (SystemExit n), events = trace w\<rparr>
      | (Inl e, w) \<Rightarrow> \<lparr>out = stdout w, status = 1, uncaught = Some e, events = trace w\<rparr>)"

subsection \<open>Names for the examples and the statements\<close>

text \<open>The path \<open>main\<close> computes for the weights file.\<close>

definition weights_file :: "process \<Rightarrow> path" where
  "weights_file pr =
     join (dirname (abspath (cwd pr) (script_file pr))) [''model'', ''mobilenet_weights.h5'']"

text \<open>The output tensor of the network \<open>load_nima_model\<close> builds.\<close>

definition nima_net :: tensor where
  "nima_net =
     Apply (Dense 10 Softmax)
       (Apply (Dropout (3 / 4))
          (Apply (MobileNetLayers False (Some AvgPooling) None) (Input (None, None, 3))))"

text \<open>The model \<open>load_nima_model\<close> returns once the weights \<open>ws\<close> are read.\<close>

definition loaded :: "'w \<Rightarrow> 'w keras_model" where
  "loaded ws = \<lparr>inputs = Input (None, None, 3), outputs = nima_net, params = Some ws\<rparr>"

text \<open>The batch \<open>evaluate_image\<close> hands to \<open>predict\<close>.\<close>

definition batch_of :: "('w, 'img, 'arr) framework \<Rightarrow> 'img \<Rightarrow> 'arr" where
  "batch_of fw img = preprocess_input fw (expand_dims fw (img_to_array fw img) 0)"

text \<open>A score distribution: ten non-negative values that sum to one.\<close>

definition distribution :: "real list \<Rightarrow> bool" where
  "distribution p = (length p = 10 \<and> (\<forall>x \<in> set p. 0 \<le> x) \<and> sum_list p = 1)"

definition uniform :: "real list" where
  "uniform = replicate 10 (1 / 10)"

text \<open>All mass on bucket \<open>k\<close> (counted from 1).\<close>

definition degenerate :: "nat \<Rightarrow> real list" where
  "degenerate k = (replicate 10 0)[k - 1 := 1]"

text \<open>A framework for the examples: one weights file and one image exist, and the
  network answers every image with the given (finite) scores.\<close>

definition demo_fw :: "real list \<Rightarrow> (unit, unit, unit) framework" where
  "demo_fw scores =
     \<lparr>read_weights = (\<lambda>p t. if p = ''/opt/nima/model/mobilenet_weights.h5'' then Inr ()
                             else Inl (WeightsLoadError p)),
      decode_image = (\<lambda>p sz. if p = ''photo.jpg'' then Inr () else Inl (ImageDecodeError p)),
      img_to_array = (\<lambda>i. i),
      expand_dims = (\<lambda>a n. a),
      preprocess_input = (\<lambda>a. a),
      forward = (\<lambda>m x. Inr [map Finite scores])\<rparr>"

text \<open>The same framework with a network whose output is NaN in every bucket.\<close>

definition demo_nan_fw :: "(unit, unit, unit) framework" where
  "demo_nan_fw = (demo_fw [])\<lparr>forward := (\<lambda>m x. Inr [replicate 10 NaN])\<rparr>"

definition demo_process :: "string list \<Rightarrow> path \<Rightarrow> process" where
  "demo_process args file = \<lparr>argv = ''run_nima.py'' # args, script_file = file, cwd = ''/home/user''\<rparr>"

text \<open>A string of the form digits, point, two digits, with an optional minus sign.\<close>

definition is_digit :: "char \<Rightarrow> bool" where
  "is_digit c = (c \<in> set ''0123456789'')"

definition two_decimals :: "string \<Rightarrow> bool" where
  "two_decimals t =
     (let body = (if startswith t ''-'' then drop 1 t else t);
          whole = takeWhile is_digit body;
          frac = dropWhile is_digit body
      in whole \<noteq> [] \<and>
         (case frac of [c, a, b] \<Rightarrow> c = CHR ''.'' \<and> is_digit a \<and> is_digit b | _ \<Rightarrow> False))"

section \<open>Running the script, case by case\<close>

lemmas prog_defs =
  returnp_def raisep_def bindp_def log_event_def lift_fw_def print_def sys_exit_def index0_def

lemma load_nima_model_run:
  "load_nima_model fw wp w =
     (let w' = w\<lparr>trace := trace w @ [BuildNetwork nima_net, ReadWeightsFile wp]\<rparr>
      in case read_weights fw wp nima_net of
           Inl e \<Rightarrow> (Inl (Framework e), w')
         | Inr ws \<Rightarrow> (Inr (loaded ws), w'))"
  by (simp add: load_nima_model_def load_weights_def MobileNet_def Model_def prog_defs Let_def
      nima_net_def loaded_def split: sum.splits)

lemma evaluate_image_run:
  "evaluate_image fw ip model w =
     (case decode_image fw ip (224, 224) of
        Inl e \<Rightarrow> (Inl (Framework e), w\<lparr>trace := trace w @ [ReadImageFile ip]\<rparr>)
      | Inr img \<Rightarrow>
         (let w' = w\<lparr>trace := trace w @ [ReadImageFile ip, Inference]\<rparr>
          in case forward fw model (batch_of fw img) of
               Inl e \<Rightarrow> (Inl (Framework e), w')
             | Inr [] \<Rightarrow> (Inl IndexError, w')
             | Inr (p # ps) \<Rightarrow> (Inr (mean_score p, std_score p), w')))"
  by (simp add: evaluate_image_def load_img_def predict_def batch_of_def prog_defs Let_def
      split: sum.splits list.splits)

lemma bindp_returnp: "bindp (returnp x) f = f x"
  by (simp add: fun_eq_iff bindp_def returnp_def)

lemma main_usage:
  "length (argv pr) \<noteq> 2 \<Longrightarrow>
   main fw pr w = (Inl (SystemExit 1), w\<lparr>stdout := stdout w @ usage @ [newline]\<rparr>)"
  by (simp add: main_def bindp_def print_def sys_exit_def raisep_def)

lemma main_run:
  "length (argv pr) = 2 \<Longrightarrow>
   main fw pr =
     bindp (load_nima_model fw (weights_file pr)) (\<lambda>model.
     bindp (evaluate_image fw (argv pr ! 1) model) (\<lambda>(m, s).
     print (format_2f m @ '','' @ format_2f s)))"
  by (simp add: main_def bindp_returnp weights_file_def Let_def)

lemma run_usage:
  "length (argv pr) \<noteq> 2 \<Longrightarrow>
   run_nima fw pr =
     \<lparr>out = usage @ [newline], status = 1, uncaught = Some (SystemExit 1), events = []\<rparr>"
  by (simp add: run_nima_def main_usage)

lemma run_weights_error:
  "length (argv pr) = 2 \<Longrightarrow> read_weights fw (weights_file pr) nima_net = Inl e \<Longrightarrow>
   run_nima fw pr = \<lparr>out = [], status = 1, uncaught = Some (Framework e),
     events = [BuildNetwork nima_net, ReadWeightsFile (weights_file pr)]\<rparr>"
  by (simp add: run_nima_def main_run bindp_def load_nima_model_run)

lemma run_image_error:
  "length (argv pr) = 2 \<Longrightarrow> read_weights fw (weights_file pr) nima_net = Inr ws \<Longrightarrow>
   decode_image fw (argv pr ! 1) (224, 224) = Inl e \<Longrightarrow>
   run_nima fw pr = \<lparr>out = [], status = 1, uncaught = Some (Framework e),
     events = [BuildNetwork nima_net, ReadWeightsFile (weights_file pr),
               ReadImageFile (argv pr ! 1)]\<rparr>"
  by (simp add: run_nima_def main_run bindp_def print_def load_nima_model_run evaluate_image_run)

lemma run_forward_error:
  "length (argv pr) = 2 \<Longrightarrow> read_weights fw (weights_file pr) nima_net = Inr ws \<Longrightarrow>
   decode_image fw (argv pr ! 1) (224, 224) = Inr img \<Longrightarrow>
   forward fw (loaded ws) (batch_of fw img) = Inl e \<Longrightarrow>
   run_nima fw pr = \<lparr>out = [], status = 1, uncaught = Some (Framework e),
     events = [BuildNetwork nima_net, ReadWeightsFile (weights_file pr),
               ReadImageFile (argv pr ! 1), Inference]\<rparr>"
  by (simp add: run_nima_def main_run bindp_def print_def load_nima_model_run evaluate_image_run)

lemma run_empty_batch:
  "length (argv pr) = 2 \<Longrightarrow> read_weights fw (weights_file pr) nima_net = Inr ws \<Longrightarrow>
   decode_image fw (argv pr ! 1) (224, 224) = Inr img \<Longrightarrow>
   forward fw (loaded ws) (batch_of fw img) = Inr [] \<Longrightarrow>
   run_nima fw pr = \<lparr>out = [], status = 1, uncaught = Some IndexError,
     events = [BuildNetwork nima_net, ReadWeightsFile (weights_file pr),
               ReadImageFile (argv pr ! 1), Inference]\<rparr>"
  by (simp add: run_nima_def main_run bindp_def print_def load_nima_model_run evaluate_image_run)

lemma run_success:
  "length (argv pr) = 2 \<Longrightarrow> read_weights fw (weights_file pr) nima_net = Inr ws \<Longrightarrow>
   decode_image fw (argv pr ! 1) (224, 224) = Inr img \<Longrightarrow>
   forward fw (loaded ws) (batch_of fw img) = Inr (p # ps) \<Longrightarrow>
   run_nima fw pr =
     \<lparr>out = format_2f (mean_score p) @ '','' @ format_2f (std_score p) @ [newline],
      status = 0, uncaught = None,
      events = [BuildNetwork nima_net, ReadWeightsFile (weights_file pr),
                ReadImageFile (argv pr ! 1), Inference]\<rparr>"
  by (simp add: run_nima_def main_run bindp_def print_def load_nima_model_run evaluate_image_run)

text \<open>The six ways a run can end.\<close>

lemma run_cases:
  obtains
    (usage) "length (argv pr) \<noteq> 2"
  | (weights) e where "length (argv pr) = 2" "read_weights fw (weights_file pr) nima_net = Inl e"
  | (image) ws e where "length (argv pr) = 2"
      "read_weights fw (weights_file pr) nima_net = Inr ws"
      "decode_image fw (argv pr ! 1) (224, 224) = Inl e"
  | (forward) ws img e where "length (argv pr) = 2"
      "read_weights fw (weights_file pr) nima_net = Inr ws"
      "decode_image fw (argv pr ! 1) (224, 224) = Inr img"
      "forward fw (loaded ws) (batch_of fw img) = Inl e"
  | (empty) ws img where "length (argv pr) = 2"
      "read_weights fw (weights_file pr) nima_net = Inr ws"
      "decode_image fw (argv pr ! 1) (224, 224) = Inr img"
      "forward fw (loaded ws) (batch_of fw img) = Inr []"
  | (success) ws img p ps where "length (argv pr) = 2"
      "read_weights fw (weights_file pr) nima_net = Inr ws"
      "decode_image fw (argv pr ! 1) (224, 224) = Inr img"
      "forward fw (loaded ws) (batch_of fw img) = Inr (p # ps)"
proof (cases "length (argv pr) = 2")
  case False
  then show ?thesis by (rule usage)
next
  case len: True
  show ?thesis
  proof (cases "read_weights fw (weights_file pr) nima_net")
    case (Inl e)
    with len show ?thesis by (rule weights)
  next
    case rw: (Inr ws)
    show ?thesis
    proof (cases "decode_image fw (argv pr ! 1) (224, 224)")
      case (Inl e)
      with len rw show ?thesis by (rule image)
    next
      case di: (Inr img)
      show ?thesis
      proof (cases "forward fw (loaded ws) (batch_of fw img)")
        case (Inl e)
        with len rw di show ?thesis by (rule forward)
      next
        case fo: (Inr batch)
        show ?thesis
        proof (cases batch)
          case Nil
          with fo have "forward fw (loaded ws) (batch_of fw img) = Inr []" by simp
          with len rw di show ?thesis by (rule empty)
        next
          case (Cons p ps)
          with fo have "forward fw (loaded ws) (batch_of fw img) = Inr (p # ps)" by simp
          with len rw di show ?thesis by (rule success)
        qed
      qed
    qed
  qed
qed

section \<open>The shape of a formatted number\<close>

lemma is_digit_digit_char: "d < 10 \<Longrightarrow> is_digit (digit_char d)"
  unfolding is_digit_def digit_char_def by (intro nth_mem) simp

lemma str_nat_digits: "str_nat n \<noteq> [] \<and> (\<forall>c \<in> set (str_nat n). is_digit c)"
proof (induction n rule: str_nat.induct)
  case (1 n)
  show ?case
  proof (cases "n < 10")
    case True
    then show ?thesis by (simp add: str_nat.simps[of n] is_digit_digit_char)
  next
    case False
    with 1 show ?thesis by (simp add: str_nat.simps[of n] is_digit_digit_char)
  qed
qed

lemma not_digit: "\<not> is_digit CHR ''.''" "\<not> is_digit CHR ''-''"
  by (simp_all add: is_digit_def)

lemma two_decimals_shape:
  assumes "ds \<noteq> []" "\<forall>c \<in> set ds. is_digit c" "is_digit a" "is_digit b"
  shows "two_decimals (ds @ CHR ''.'' # [a, b])"
    and "two_decimals (CHR ''-'' # ds @ CHR ''.'' # [a, b])"
proof -
  have tw: "takeWhile is_digit (ds @ CHR ''.'' # [a, b]) = ds"
    using assms by (simp add: not_digit)
  have dw: "dropWhile is_digit (ds @ CHR ''.'' # [a, b]) = CHR ''.'' # [a, b]"
    using assms by (simp add: not_digit)
  have hd: "\<not> startswith (ds @ CHR ''.'' # [a, b]) ''-''"
    using assms by (cases ds) (auto simp: startswith_def not_digit)
  show "two_decimals (ds @ CHR ''.'' # [a, b])"
    using assms hd by (simp add: two_decimals_def tw dw)
  show "two_decimals (CHR ''-'' # ds @ CHR ''.'' # [a, b])"
    using assms by (simp add: two_decimals_def startswith_def tw dw)
qed

lemma format_fixed_shape:
  "format_fixed x =
     (if x < 0 then ''-'' else []) @ str_nat (nat (round_half_even (\<bar>x\<bar> * 100)) div 100)
       @ CHR ''.'' # [digit_char (nat (round_half_even (\<bar>x\<bar> * 100)) mod 100 div 10),
                      digit_char (nat (round_half_even (\<bar>x\<bar> * 100)) mod 10)]"
  by (simp add: format_fixed_def Let_def)

lemma two_decimals_fixed: "two_decimals (format_fixed x)"
proof -
  define n where "n = nat (round_half_even (\<bar>x\<bar> * 100))"
  have a: "is_digit (digit_char (n mod 100 div 10))" by (intro is_digit_digit_char) simp
  have b: "is_digit (digit_char (n mod 10))" by (intro is_digit_digit_char) simp
  have ne: "str_nat (n div 100) \<noteq> []" and dg: "\<forall>c \<in> set (str_nat (n div 100)). is_digit c"
    using str_nat_digits[of "n div 100"] by blast+
  show ?thesis
  proof (cases "x < 0")
    case True
    then have "format_fixed x = CHR ''-'' # str_nat (n div 100)
        @ CHR ''.'' # [digit_char (n mod 100 div 10), digit_char (n mod 10)]"
      unfolding format_fixed_shape n_def by simp
    then show ?thesis using two_decimals_shape(2)[OF ne dg a b] by simp
  next
    case False
    then have "format_fixed x = str_nat (n div 100)
        @ CHR ''.'' # [digit_char (n mod 100 div 10), digit_char (n mod 10)]"
      unfolding format_fixed_shape n_def by simp
    then show ?thesis using two_decimals_shape(1)[OF ne dg a b] by simp
  qed
qed

lemma format_fixed_chars:
  assumes "c \<in> set (format_fixed x)"
  shows "is_digit c \<or> c = CHR ''.'' \<or> c = CHR ''-''"
proof -
  define n where "n = nat (round_half_even (\<bar>x\<bar> * 100))"
  have a: "is_digit (digit_char (n mod 100 div 10))" by (intro is_digit_digit_char) simp
  have b: "is_digit (digit_char (n mod 10))" by (intro is_digit_digit_char) simp
  have dg: "\<forall>c \<in> set (str_nat (n div 100)). is_digit c"
    using str_nat_digits[of "n div 100"] by blast
  have "set (format_fixed x) \<subseteq> {CHR ''-'', CHR ''.'', digit_char (n mod 100 div 10), digit_char (n mod 10)}
          \<union> set (str_nat (n div 100))"
    unfolding format_fixed_shape n_def by auto
  with assms a b dg show ?thesis by auto
qed

lemma format_2f_simps:
  "format_2f (Finite x) = format_fixed x" "format_2f PosInf = ''inf''"
  "format_2f NegInf = ''-inf''" "format_2f NaN = ''nan''"
  by (simp_all add: format_2f_def)

lemma two_decimals_format: "is_finite v \<Longrightarrow> two_decimals (format_2f v)"
  by (cases v) (simp_all add: format_2f_simps two_decimals_fixed)

lemma format_plain: "c \<in> set (format_2f v) \<Longrightarrow> c \<noteq> newline \<and> c \<noteq> CHR '' ''"
proof (cases v)
  case (Finite x)
  then show "c \<in> set (format_2f v) \<Longrightarrow> c \<noteq> newline \<and> c \<noteq> CHR '' ''"
    using format_fixed_chars[of c x] by (auto simp: format_2f_simps is_digit_def newline_def)
qed (auto simp: format_2f_simps newline_def)

lemma format_nonfinite: "\<not> is_finite v \<Longrightarrow> format_2f v \<in> {''nan'', ''inf'', ''-inf''}"
  by (cases v) (simp_all add: format_2f_simps)

lemma not_two_decimals_nan: "\<not> two_decimals ''nan''"
  by (simp add: two_decimals_def startswith_def is_digit_def)

lemma str_nat_small: "n < 10 \<Longrightarrow> str_nat n = [digit_char n]"
  by (simp add: str_nat.simps)

lemma format_small:
  "format_2f (Finite 10) = ''10.00''" "format_2f (Finite 1) = ''1.00''"
  "format_2f (Finite 0) = ''0.00''"
  by (simp_all add: format_2f_simps format_fixed_def round_half_even_def str_nat.simps[of 10] str_nat_small
      digit_char_def Let_def)

section \<open>Mean and standard deviation of the score distribution\<close>

lemma upt_1_11: "[1..<11] = [1, 2, 3, 4, 5, 6, 7, 8, 9, 10::nat]"
  by (simp add: upt_rec)

lemma buckets_set: "{1..10::nat} = set [1..<11]"
  by auto

lemma fsum_Finite: "fsum (map (\<lambda>i. Finite (f i)) xs) = Finite (\<Sum>i\<leftarrow>xs. f i)"
  by (induction xs) simp_all

text \<open>On finite scores the float operations are those of the reals.\<close>

lemma mean_score_Finite:
  assumes "length q = 10"
  shows "mean_score (map Finite q) = Finite (\<Sum>i = 1..10. real i * q ! (i - 1))"
proof -
  have "map (\<lambda>i. fmul (Finite (real i)) (map Finite q ! (i - 1))) [1..<11]
          = map (\<lambda>i. Finite (real i * q ! (i - 1))) [1..<11]"
    using assms by (intro map_cong) auto
  then have "mean_score (map Finite q) = Finite (\<Sum>i\<leftarrow>[1..<11]. real i * q ! (i - 1))"
    unfolding mean_score_def by (simp only: fsum_Finite)
  then show ?thesis
    by (simp only: buckets_set interv_sum_list_conv_sum_set_nat)
qed

lemma std_score_Finite:
  assumes "length q = 10" and "mean_score (map Finite q) = Finite m"
    and "0 \<le> (\<Sum>i = 1..10. (real i - m)\<^sup>2 * q ! (i - 1))"
  shows "std_score (map Finite q) = Finite (sqrt (\<Sum>i = 1..10. (real i - m)\<^sup>2 * q ! (i - 1)))"
proof -
  have "map (\<lambda>i. fmul (fsquare (fsub (Finite (real i)) (Finite m))) (map Finite q ! (i - 1))) [1..<11]
          = map (\<lambda>i. Finite ((real i - m)\<^sup>2 * q ! (i - 1))) [1..<11]"
    using assms(1) by (intro map_cong) (auto simp: fsquare_def fsub_def power2_eq_square)
  then have "fsum (map (\<lambda>i. fmul (fsquare (fsub (Finite (real i)) (Finite m)))
                (map Finite q ! (i - 1))) [1..<11])
          = Finite (\<Sum>i\<leftarrow>[1..<11]. (real i - m)\<^sup>2 * q ! (i - 1))"
    by (simp only: fsum_Finite)
  then have "fsum (map (\<lambda>i. fmul (fsquare (fsub (Finite (real i)) (Finite m)))
                (map Finite q ! (i - 1))) [1..<11])
          = Finite (\<Sum>i = 1..10. (real i - m)\<^sup>2 * q ! (i - 1))"
    by (simp only: buckets_set interv_sum_list_conv_sum_set_nat)
  with assms(3) show ?thesis
    unfolding std_score_def assms(2) by simp
qed

lemma variance_nonneg:
  assumes "distribution p"
  shows "0 \<le> (\<Sum>i = 1..10. (real i - m)\<^sup>2 * p ! (i - 1))"
proof (rule sum_nonneg)
  fix i :: nat
  assume "i \<in> {1..10}"
  then have "i - 1 < 10" by auto
  with assms have "p ! (i - 1) \<in> set p" by (intro nth_mem) (simp add: distribution_def)
  with assms have "0 \<le> p ! (i - 1)" by (simp add: distribution_def)
  then show "0 \<le> (real i - m)\<^sup>2 * p ! (i - 1)" by simp
qed

lemma sum_buckets: "(\<Sum>i = 1..10. f i) = (\<Sum>i\<leftarrow>[1, 2, 3, 4, 5, 6, 7, 8, 9, 10::nat]. f i)"
proof -
  have "(\<Sum>i = 1..10. f i) = sum f (set [1..<11])" by (simp only: buckets_set)
  also have "\<dots> = (\<Sum>i\<leftarrow>[1..<11]. f i)"
    by (rule interv_sum_list_conv_sum_set_nat[symmetric])
  finally show ?thesis by (simp only: upt_1_11)
qed

lemma distribution_uniform: "distribution uniform"
  by (simp add: distribution_def uniform_def numeral_eq_Suc)

lemma distribution_degenerate: "distribution (degenerate 10)" "distribution (degenerate 1)"
  by (simp_all add: distribution_def degenerate_def numeral_eq_Suc)

lemma mean_uniform: "mean_score (map Finite uniform) = Finite (11 / 2)"
proof -
  have "length uniform = 10" by (simp add: uniform_def)
  then have "mean_score (map Finite uniform) = Finite (\<Sum>i = 1..10. real i * uniform ! (i - 1))"
    by (rule mean_score_Finite)
  also have "(\<Sum>i = 1..10. real i * uniform ! (i - 1)) = 11 / 2"
    unfolding sum_buckets by (simp add: uniform_def numeral_eq_Suc)
  finally show ?thesis .
qed

lemma variance_uniform: "(\<Sum>i = 1..10. (real i - 11 / 2)\<^sup>2 * uniform ! (i - 1)) = 33 / 4"
  unfolding sum_buckets by (simp add: uniform_def numeral_eq_Suc power2_eq_square)

lemma std_uniform: "std_score (map Finite uniform) = Finite (sqrt (33 / 4))"
proof -
  have l: "length uniform = 10" by (simp add: uniform_def)
  have v: "0 \<le> (\<Sum>i = 1..10. (real i - 11 / 2)\<^sup>2 * uniform ! (i - 1))"
    unfolding variance_uniform by simp
  show ?thesis
    using std_score_Finite[OF l mean_uniform v] by (simp only: variance_uniform)
qed

lemma mean_degenerate:
  "mean_score (map Finite (degenerate 10)) = Finite 10"
  "mean_score (map Finite (degenerate 1)) = Finite 1"
proof -
  have l: "length (degenerate 10) = 10" "length (degenerate 1) = 10"
    by (simp_all add: degenerate_def)
  have "(\<Sum>i = 1..10. real i * degenerate 10 ! (i - 1)) = 10"
    unfolding sum_buckets by (simp add: degenerate_def numeral_eq_Suc)
  with mean_score_Finite[OF l(1)] show "mean_score (map Finite (degenerate 10)) = Finite 10"
    by simp
  have "(\<Sum>i = 1..10. real i * degenerate 1 ! (i - 1)) = 1"
    unfolding sum_buckets by (simp add: degenerate_def numeral_eq_Suc)
  with mean_score_Finite[OF l(2)] show "mean_score (map Finite (degenerate 1)) = Finite 1"
    by simp
qed

lemma std_degenerate:
  "std_score (map Finite (degenerate 10)) = Finite 0"
  "std_score (map Finite (degenerate 1)) = Finite 0"
proof -
  have l: "length (degenerate 10) = 10" "length (degenerate 1) = 10"
    by (simp_all add: degenerate_def)
  have v10: "(\<Sum>i = 1..10. (real i - 10)\<^sup>2 * degenerate 10 ! (i - 1)) = 0"
    unfolding sum_buckets by (simp add: degenerate_def numeral_eq_Suc)
  have v1: "(\<Sum>i = 1..10. (real i - 1)\<^sup>2 * degenerate 1 ! (i - 1)) = 0"
    unfolding sum_buckets by (simp add: degenerate_def numeral_eq_Suc)
  have "0 \<le> (\<Sum>i = 1..10. (real i - 10)\<^sup>2 * degenerate 10 ! (i - 1))"
    unfolding v10 by simp
  from std_score_Finite[OF l(1) mean_degenerate(1) this]
  show "std_score (map Finite (degenerate 10)) = Finite 0"
    by (simp only: v10 real_sqrt_zero)
  have "0 \<le> (\<Sum>i = 1..10. (real i - 1)\<^sup>2 * degenerate 1 ! (i - 1))"
    unfolding v1 by simp
  from std_score_Finite[OF l(2) mean_degenerate(2) this]
  show "std_score (map Finite (degenerate 1)) = Finite 0"
    by (simp only: v1 real_sqrt_zero)
qed

text \<open>NaN scores give a NaN mean and a NaN standard deviation.\<close>

lemma fmul_NaN: "fmul a NaN = NaN"
  by (cases a) simp_all

lemma fadd_NaN: "fadd a NaN = NaN"
  by (cases a) simp_all

lemma mean_nan: "mean_score (replicate 10 NaN) = NaN"
  by (simp add: mean_score_def upt_1_11 numeral_eq_Suc fmul_NaN)

lemma std_nan: "std_score (replicate 10 NaN) = NaN"
  unfolding std_score_def mean_nan by (simp add: upt_1_11 numeral_eq_Suc fmul_NaN)

lemma format_550: "format_2f (Finite (11 / 2)) = ''5.50''"
  by (simp add: format_2f_simps format_fixed_def round_half_even_def str_nat_small digit_char_def
      Let_def)

lemma sqrt_825_lower: "287 \<le> sqrt (33 / 4) * 100"
proof -
  have "(287 / 100)\<^sup>2 \<le> (33 / 4 :: real)" by (simp add: power2_eq_square)
  then have "287 / 100 \<le> sqrt (33 / 4)" by (rule real_le_rsqrt)
  then show ?thesis by simp
qed

lemma sqrt_825_upper: "sqrt (33 / 4) * 100 < 575 / 2"
proof -
  have "(33 / 4 :: real) < (23 / 8)\<^sup>2" by (simp add: power2_eq_square)
  then have "sqrt (33 / 4) < 23 / 8" by (intro real_less_lsqrt) simp_all
  then show ?thesis by simp
qed

lemma round_287: "round_half_even (sqrt (33 / 4) * 100) = 287"
proof -
  have fl: "\<lfloor>sqrt (33 / 4) * 100\<rfloor> = 287"
    using sqrt_825_lower sqrt_825_upper by (intro floor_unique) simp_all
  show ?thesis
    using sqrt_825_upper by (simp add: round_half_even_def fl Let_def)
qed

lemma format_287: "format_2f (Finite (sqrt (33 / 4))) = ''2.87''"
proof -
  have "\<bar>sqrt (33 / 4)\<bar> = sqrt (33 / 4)" by simp
  moreover have "\<not> sqrt (33 / 4) < 0" by (simp add: not_less)
  ultimately show ?thesis
    by (simp add: format_2f_simps format_fixed_def round_287 str_nat_small digit_char_def Let_def)
qed

lemma evaluate_image_scores:
  assumes "decode_image fw image_path (224, 224) = Inr img"
    and "forward fw model (batch_of fw img) = Inr (p # ps)"
  shows "evaluate_image fw image_path model w =
           (Inr (mean_score p, std_score p),
            w\<lparr>trace := trace w @ [ReadImageFile image_path, Inference]\<rparr>)"
  using assms by (simp add: evaluate_image_run)

section \<open>Paths\<close>

lemma startswith_slash: "startswith s ''/'' \<longleftrightarrow> (\<exists>t. s = CHR ''/'' # t)"
  by (cases s) (auto simp: startswith_def)

lemma join_two:
  assumes "d \<noteq> []"
  shows "join d [''model'', ''mobilenet_weights.h5''] =
           (if endswith d ''/'' then d else d @ ''/'') @ ''model/mobilenet_weights.h5''"
  using assms by (simp add: startswith_def endswith_def)

lemma normpath_abs:
  assumes "startswith q ''/''"
  shows "startswith (normpath q) ''/''"
proof -
  from assms obtain t where q: "q = CHR ''/'' # t" by (auto simp: startswith_slash)
  show ?thesis
    unfolding normpath_def Let_def by (simp add: q startswith_def)
qed

lemma abspath_abs:
  assumes "isabs c \<or> isabs f"
  shows "startswith (abspath c f) ''/''"
proof (cases "isabs f")
  case True
  then show ?thesis by (simp add: abspath_def normpath_abs isabs_def)
next
  case False
  with assms obtain t where c: "c = CHR ''/'' # t" by (auto simp: isabs_def startswith_slash)
  from False have "startswith (join c [f]) ''/''"
    by (simp add: c isabs_def startswith_def)
  with False show ?thesis by (simp add: abspath_def normpath_abs)
qed

lemma rstrip_empty: "rstrip c s = [] \<longleftrightarrow> (\<forall>x \<in> set s. x = c)"
  by (auto simp: rstrip_def dropWhile_eq_Nil_conv)

lemma rstrip_take:
  "rstrip c s = take (length s - length (takeWhile (\<lambda>x. x = c) (rev s))) s"
  unfolding rstrip_def by (subst dropWhile_eq_drop) (simp add: rev_drop)

lemma rstrip_Cons:
  assumes "rstrip c (x # s) \<noteq> []"
  shows "\<exists>t. rstrip c (x # s) = x # t"
proof -
  define n where "n = length (x # s) - length (takeWhile (\<lambda>y. y = c) (rev (x # s)))"
  have r: "rstrip c (x # s) = take n (x # s)"
    unfolding n_def by (rule rstrip_take)
  with assms show ?thesis by (cases n) auto
qed

lemma length_takeWhile_less:
  "x \<in> set xs \<Longrightarrow> \<not> P x \<Longrightarrow> length (takeWhile P xs) < length xs"
  by (induction xs) auto

lemma all_slashes: "h = replicate (length h) c \<longleftrightarrow> (\<forall>x \<in> set h. x = c)"
  by (induction h) auto

lemma dirname_abs:
  assumes "startswith p ''/''"
  shows "startswith (dirname p) ''/''"
proof -
  from assms obtain t where p: "p = CHR ''/'' # t" by (auto simp: startswith_slash)
  define i where "i = length p - length (takeWhile (\<lambda>x. x \<noteq> CHR ''/'') (rev p))"
  have "length (takeWhile (\<lambda>x. x \<noteq> CHR ''/'') (rev p)) < length (rev p)"
    by (rule length_takeWhile_less[of "CHR ''/''"]) (simp_all add: p)
  then have "0 < i" by (simp add: i_def)
  then obtain u where h: "take i p = CHR ''/'' # u" by (cases i) (auto simp: p)
  show ?thesis
  proof (cases "take i p = replicate (length (take i p)) CHR ''/''")
    case True
    then show ?thesis
      unfolding dirname_def Let_def i_def[symmetric] by (simp add: h startswith_def)
  next
    case False
    then have "rstrip CHR ''/'' (CHR ''/'' # u) \<noteq> []"
      unfolding h by (simp only: all_slashes rstrip_empty) simp
    then obtain v where "rstrip CHR ''/'' (CHR ''/'' # u) = CHR ''/'' # v"
      using rstrip_Cons by blast
    with False show ?thesis
      unfolding dirname_def Let_def i_def[symmetric] by (simp add: h startswith_def)
  qed
qed

lemma weights_file_shape:
  assumes "isabs (cwd pr) \<or> isabs (script_file pr)"
  shows "weights_file pr =
           (if endswith (dirname (abspath (cwd pr) (script_file pr))) ''/''
            then dirname (abspath (cwd pr) (script_file pr))
            else dirname (abspath (cwd pr) (script_file pr)) @ ''/'')
           @ ''model/mobilenet_weights.h5''"
proof -
  have "startswith (dirname (abspath (cwd pr) (script_file pr))) ''/''"
    using assms by (intro dirname_abs abspath_abs)
  then have "dirname (abspath (cwd pr) (script_file pr)) \<noteq> []"
    by (auto simp: startswith_slash)
  then show ?thesis unfolding weights_file_def by (rule join_two)
qed

lemma weights_file_cwd:
  "isabs (script_file pr) \<Longrightarrow> weights_file (pr\<lparr>cwd := c\<rparr>) = weights_file pr"
  by (simp add: weights_file_def abspath_def)

lemma no_writes: "WriteFile q \<notin> set (events (run_nima fw pr))"
proof (cases rule: run_cases[where pr = pr and fw = fw])
  case usage
  then show ?thesis by (simp add: run_usage)
next
  case (weights e)
  then show ?thesis by (simp add: run_weights_error)
next
  case (image ws e)
  then show ?thesis by (simp add: run_image_error)
next
  case (forward ws img e)
  then show ?thesis by (simp add: run_forward_error)
next
  case (empty ws img)
  then show ?thesis by (simp add: run_empty_batch)
next
  case (success ws img p ps)
  then show ?thesis by (simp add: run_success)
qed

lemma weights_reads:
  assumes "length (argv pr) = 2"
  shows "ReadWeightsFile p \<in> set (events (run_nima fw pr)) \<longleftrightarrow> p = weights_file pr"
proof (cases rule: run_cases[where pr = pr and fw = fw])
  case usage
  with assms show ?thesis by simp
next
  case (weights e)
  then show ?thesis by (auto simp: run_weights_error)
next
  case (image ws e)
  then show ?thesis by (auto simp: run_image_error)
next
  case (forward ws img e)
  then show ?thesis by (auto simp: run_forward_error)
next
  case (empty ws img)
  then show ?thesis by (auto simp: run_empty_batch)
next
  case (success ws img p ps)
  then show ?thesis by (auto simp: run_success)
qed

section \<open>The example runs\<close>

lemma demo_weights_file:
  "weights_file (demo_process args ''/opt/nima/run_nima.py'') =
     ''/opt/nima/model/mobilenet_weights.h5''"
proof -
  have "join (dirname (abspath ''/home/user'' ''/opt/nima/run_nima.py''))
          [''model'', ''mobilenet_weights.h5''] = ''/opt/nima/model/mobilenet_weights.h5''"
    by code_simp
  then show ?thesis by (simp add: weights_file_def demo_process_def)
qed

lemma demo_argv: "argv (demo_process args file) = ''run_nima.py'' # args"
  by (simp add: demo_process_def)

lemma demo_run_success:
  "run_nima (demo_fw p) (demo_process [''photo.jpg''] ''/opt/nima/run_nima.py'') =
     \<lparr>out = format_2f (mean_score (map Finite p)) @ '',''
              @ format_2f (std_score (map Finite p)) @ [newline],
      status = 0, uncaught = None,
      events = [BuildNetwork nima_net, ReadWeightsFile ''/opt/nima/model/mobilenet_weights.h5'',
                ReadImageFile ''photo.jpg'', Inference]\<rparr>"
  using run_success[of "demo_process [''photo.jpg''] ''/opt/nima/run_nima.py''" "demo_fw p"
      "()" "()" "map Finite p" "[]"]
  by (simp add: demo_weights_file demo_argv) (simp add: demo_fw_def)

lemma demo_weights_file_tmp:
  "weights_file (demo_process args ''/tmp/run_nima.py'') = ''/tmp/model/mobilenet_weights.h5''"
proof -
  have "join (dirname (abspath ''/home/user'' ''/tmp/run_nima.py''))
          [''model'', ''mobilenet_weights.h5''] = ''/tmp/model/mobilenet_weights.h5''"
    by code_simp
  then show ?thesis by (simp add: weights_file_def demo_process_def)
qed

lemma demo_run_both_invalid:
  "run_nima (demo_fw p) (demo_process [''notes.txt''] ''/tmp/run_nima.py'') =
     \<lparr>out = [], status = 1,
      uncaught = Some (Framework (WeightsLoadError ''/tmp/model/mobilenet_weights.h5'')),
      events = [BuildNetwork nima_net, ReadWeightsFile ''/tmp/model/mobilenet_weights.h5'']\<rparr>"
  using run_weights_error[of "demo_process [''notes.txt''] ''/tmp/run_nima.py''" "demo_fw p"
      "WeightsLoadError ''/tmp/model/mobilenet_weights.h5''"]
  by (simp add: demo_weights_file_tmp demo_argv) (simp add: demo_fw_def)

lemma demo_evaluate:
  "decode_image (demo_fw p) ''photo.jpg'' (224, 224) = Inr ()"
  "forward (demo_fw p) model x = Inr [map Finite p]"
  by (simp_all add: demo_fw_def)


lemma demo_run_image_error:
  "run_nima (demo_fw p) (demo_process [''notes.txt''] ''/opt/nima/run_nima.py'') =
     \<lparr>out = [], status = 1, uncaught = Some (Framework (ImageDecodeError ''notes.txt'')),
      events = [BuildNetwork nima_net, ReadWeightsFile ''/opt/nima/model/mobilenet_weights.h5'',
                ReadImageFile ''notes.txt'']\<rparr>"
  using run_image_error[of "demo_process [''notes.txt''] ''/opt/nima/run_nima.py''" "demo_fw p"
      "()" "ImageDecodeError ''notes.txt''"]
  by (simp add: demo_weights_file demo_argv) (simp add: demo_fw_def)

lemma demo_run_degenerate:
  "run_nima (demo_fw (degenerate 10)) (demo_process [''photo.jpg''] ''/opt/nima/run_nima.py'') =
     \<lparr>out = ''10.00,0.00'' @ [newline], status = 0, uncaught = None,
      events = [BuildNetwork nima_net, ReadWeightsFile ''/opt/nima/model/mobilenet_weights.h5'',
                ReadImageFile ''photo.jpg'', Inference]\<rparr>"
  by (simp add: demo_run_success mean_degenerate std_degenerate format_small)

lemma demo_run_nan:
  "run_nima demo_nan_fw (demo_process [''photo.jpg''] ''/opt/nima/run_nima.py'') =
     \<lparr>out = ''nan,nan'' @ [newline], status = 0, uncaught = None,
      events = [BuildNetwork nima_net, ReadWeightsFile ''/opt/nima/model/mobilenet_weights.h5'',
                ReadImageFile ''photo.jpg'', Inference]\<rparr>"
  using run_success[of "demo_process [''photo.jpg''] ''/opt/nima/run_nima.py''" demo_nan_fw
      "()" "()" "replicate 10 NaN" "[]"]
  by (simp add: demo_weights_file demo_argv mean_nan std_nan format_2f_simps)
     (simp add: demo_nan_fw_def demo_fw_def)

section \<open>The claims\<close>

text \<open>
  C1. For every 10-element probability distribution \<open>p\<close> (entries non-negative, summing
  to 1) that the network predicts for the image, the mean returned by the scorer is the
  sum over the buckets \<open>i = 1..10\<close> of \<open>i\<close> times \<open>p[i-1]\<close>. Finite arithmetic is exact
  here, so the equality is exact.
\<close>

theorem mean_is_weighted_sum_C1:
  assumes "distribution p"
    and "decode_image fw image_path (224, 224) = Inr img"
    and "forward fw model (batch_of fw img) = Inr (map Finite p # ps)"
  shows "\<exists>s. fst (evaluate_image fw image_path model w) =
               Inr (Finite (\<Sum>i = 1..10. real i * p ! (i - 1)), s)"
proof -
  from assms(1) have "length p = 10" by (simp add: distribution_def)
  then have "mean_score (map Finite p) = Finite (\<Sum>i = 1..10. real i * p ! (i - 1))"
    by (rule mean_score_Finite)
  with assms(2,3) show ?thesis by (simp add: evaluate_image_scores)
qed

theorem mean_is_weighted_sum_C1_witness:
  "distribution uniform
   \<and> decode_image (demo_fw uniform) ''photo.jpg'' (224, 224) = Inr ()
   \<and> forward (demo_fw uniform) (loaded ()) (batch_of (demo_fw uniform) ())
       = Inr [map Finite uniform]
   \<and> (\<exists>s. fst (evaluate_image (demo_fw uniform) ''photo.jpg'' (loaded ())
                  \<lparr>stdout = [], trace = []\<rparr>) =
               Inr (Finite (\<Sum>i = 1..10. real i * uniform ! (i - 1)), s))"
  using mean_is_weighted_sum_C1[of uniform "demo_fw uniform" "''photo.jpg''" "()" "loaded ()" "[]"
      "\<lparr>stdout = [], trace = []\<rparr>"]
  by (simp add: distribution_uniform demo_evaluate)

text \<open>
  C2. For every 10-element probability distribution \<open>p\<close> that the network predicts, the
  standard deviation returned by the scorer is the square root of the sum over the buckets
  \<open>i = 1..10\<close> of \<open>(i - mean)\<close> squared times \<open>p[i-1]\<close>, with the mean of C1; that sum
  is not negative.
\<close>

theorem std_is_root_of_variance_C2:
  assumes "distribution p"
    and "decode_image fw image_path (224, 224) = Inr img"
    and "forward fw model (batch_of fw img) = Inr (map Finite p # ps)"
  shows "\<exists>m. m = (\<Sum>i = 1..10. real i * p ! (i - 1))
           \<and> 0 \<le> (\<Sum>i = 1..10. (real i - m)\<^sup>2 * p ! (i - 1))
           \<and> fst (evaluate_image fw image_path model w) =
               Inr (Finite m, Finite (sqrt (\<Sum>i = 1..10. (real i - m)\<^sup>2 * p ! (i - 1))))"
proof -
  define m where "m = (\<Sum>i = 1..10. real i * p ! (i - 1))"
  from assms(1) have l: "length p = 10" by (simp add: distribution_def)
  have mean: "mean_score (map Finite p) = Finite m"
    unfolding m_def using l by (rule mean_score_Finite)
  have v: "0 \<le> (\<Sum>i = 1..10. (real i - m)\<^sup>2 * p ! (i - 1))"
    using assms(1) by (rule variance_nonneg)
  have "std_score (map Finite p) = Finite (sqrt (\<Sum>i = 1..10. (real i - m)\<^sup>2 * p ! (i - 1)))"
    using l mean v by (rule std_score_Finite)
  with mean assms(2,3) have "fst (evaluate_image fw image_path model w) =
      Inr (Finite m, Finite (sqrt (\<Sum>i = 1..10. (real i - m)\<^sup>2 * p ! (i - 1))))"
    by (simp add: evaluate_image_scores)
  with v m_def show ?thesis by blast
qed

theorem std_is_root_of_variance_C2_witness:
  "distribution (degenerate 10)
   \<and> decode_image (demo_fw (degenerate 10)) ''photo.jpg'' (224, 224) = Inr ()
   \<and> forward (demo_fw (degenerate 10)) (loaded ()) (batch_of (demo_fw (degenerate 10)) ())
       = Inr [map Finite (degenerate 10)]
   \<and> (\<exists>m. m = (\<Sum>i = 1..10. real i * degenerate 10 ! (i - 1))
           \<and> 0 \<le> (\<Sum>i = 1..10. (real i - m)\<^sup>2 * degenerate 10 ! (i - 1))
           \<and> fst (evaluate_image (demo_fw (degenerate 10)) ''photo.jpg'' (loaded ())
                    \<lparr>stdout = [], trace = []\<rparr>) =
               Inr (Finite m,
                    Finite (sqrt (\<Sum>i = 1..10. (real i - m)\<^sup>2 * degenerate 10 ! (i - 1)))))"
  using std_is_root_of_variance_C2[of "degenerate 10" "demo_fw (degenerate 10)" "''photo.jpg''" "()"
      "loaded ()" "[]" "\<lparr>stdout = [], trace = []\<rparr>"]
  by (simp add: distribution_degenerate demo_evaluate)

text \<open>
  C3. Whenever the script is started with a number of command-line arguments other than
  exactly one (\<open>len(sys.argv) != 2\<close>), it prints the usage message to standard
  output, exits with status 1 and prints no score line: the usage line is all of its
  output. No network is built and no file is read in that case: the run has no events.
\<close>

theorem usage_error_C3:
  assumes "length (argv pr) \<noteq> 2"
  shows "out (run_nima fw pr) = usage @ [newline] \<and> status (run_nima fw pr) = 1
         \<and> events (run_nima fw pr) = []"
  using assms by (simp add: run_usage)

theorem usage_error_C3_witness:
  "length (argv (demo_process [] ''/opt/nima/run_nima.py'')) \<noteq> 2
   \<and> out (run_nima (demo_fw uniform) (demo_process [] ''/opt/nima/run_nima.py'')) = usage @ [newline]
   \<and> status (run_nima (demo_fw uniform) (demo_process [] ''/opt/nima/run_nima.py'')) = 1
   \<and> events (run_nima (demo_fw uniform) (demo_process [] ''/opt/nima/run_nima.py'')) = []"
  using usage_error_C3[of "demo_process [] ''/opt/nima/run_nima.py''" "demo_fw uniform"]
  by (simp add: demo_argv)

text \<open>
  C4 (as amended). Every run that ends with status 0 has printed exactly one line: the
  scorer's mean of the predicted scores, one comma, the scorer's standard deviation and
  one line terminator, with no blank and no other line terminator. A value that is finite
  is printed with exactly two digits after the decimal point; a value that is not finite
  is printed as \<open>nan\<close>, \<open>inf\<close> or \<open>-inf\<close>.
\<close>

theorem score_line_format_C4:
  assumes "status (run_nima fw pr) = 0"
  shows "\<exists>ws img p ps.
           read_weights fw (weights_file pr) nima_net = Inr ws
         \<and> decode_image fw (argv pr ! 1) (224, 224) = Inr img
         \<and> forward fw (loaded ws) (batch_of fw img) = Inr (p # ps)
         \<and> out (run_nima fw pr) =
             format_2f (mean_score p) @ '','' @ format_2f (std_score p) @ [newline]
         \<and> (is_finite (mean_score p) \<longrightarrow> two_decimals (format_2f (mean_score p)))
         \<and> (is_finite (std_score p) \<longrightarrow> two_decimals (format_2f (std_score p)))
         \<and> (\<not> is_finite (mean_score p) \<longrightarrow>
               format_2f (mean_score p) \<in> {''nan'', ''inf'', ''-inf''})
         \<and> (\<not> is_finite (std_score p) \<longrightarrow>
               format_2f (std_score p) \<in> {''nan'', ''inf'', ''-inf''})
         \<and> (\<forall>c \<in> set (format_2f (mean_score p) @ '','' @ format_2f (std_score p)).
               c \<noteq> newline \<and> c \<noteq> CHR '' '')"
proof (cases rule: run_cases[where pr = pr and fw = fw])
  case usage
  with assms show ?thesis by (simp add: run_usage)
next
  case (weights e)
  with assms show ?thesis by (simp add: run_weights_error)
next
  case (image ws e)
  with assms show ?thesis by (simp add: run_image_error)
next
  case (forward ws img e)
  with assms show ?thesis by (simp add: run_forward_error)
next
  case (empty ws img)
  with assms show ?thesis by (simp add: run_empty_batch)
next
  case (success ws img p ps)
  then have o: "out (run_nima fw pr) =
      format_2f (mean_score p) @ '','' @ format_2f (std_score p) @ [newline]"
    by (simp add: run_success)
  have pl: "\<forall>c \<in> set (format_2f (mean_score p) @ '','' @ format_2f (std_score p)).
          c \<noteq> newline \<and> c \<noteq> CHR '' ''"
    using format_plain by (auto simp: newline_def)
  have fin: "is_finite (mean_score p) \<longrightarrow> two_decimals (format_2f (mean_score p))"
    "is_finite (std_score p) \<longrightarrow> two_decimals (format_2f (std_score p))"
    by (simp_all add: two_decimals_format)
  have nonfin: "\<not> is_finite (mean_score p) \<longrightarrow>
               format_2f (mean_score p) \<in> {''nan'', ''inf'', ''-inf''}"
    "\<not> is_finite (std_score p) \<longrightarrow> format_2f (std_score p) \<in> {''nan'', ''inf'', ''-inf''}"
    using format_nonfinite[of "mean_score p"] format_nonfinite[of "std_score p"] by blast+
  show ?thesis
    by (intro exI[of _ ws] exI[of _ img] exI[of _ p] exI[of _ ps] conjI)
       (rule success(2) success(3) success(4) o fin nonfin pl)+
qed

theorem score_line_format_C4_witness:
  "status (run_nima (demo_fw (degenerate 10))
             (demo_process [''photo.jpg''] ''/opt/nima/run_nima.py'')) = 0
   \<and> (\<exists>ws img p ps.
           read_weights (demo_fw (degenerate 10))
             (weights_file (demo_process [''photo.jpg''] ''/opt/nima/run_nima.py'')) nima_net
             = Inr ws
         \<and> decode_image (demo_fw (degenerate 10))
             (argv (demo_process [''photo.jpg''] ''/opt/nima/run_nima.py'') ! 1) (224, 224)
             = Inr img
         \<and> forward (demo_fw (degenerate 10)) (loaded ws) (batch_of (demo_fw (degenerate 10)) img)
             = Inr (p # ps)
         \<and> out (run_nima (demo_fw (degenerate 10))
                  (demo_process [''photo.jpg''] ''/opt/nima/run_nima.py'')) =
             format_2f (mean_score p) @ '','' @ format_2f (std_score p) @ [newline]
         \<and> (is_finite (mean_score p) \<longrightarrow> two_decimals (format_2f (mean_score p)))
         \<and> (is_finite (std_score p) \<longrightarrow> two_decimals (format_2f (std_score p)))
         \<and> (\<not> is_finite (mean_score p) \<longrightarrow>
               format_2f (mean_score p) \<in> {''nan'', ''inf'', ''-inf''})
         \<and> (\<not> is_finite (std_score p) \<longrightarrow>
               format_2f (std_score p) \<in> {''nan'', ''inf'', ''-inf''})
         \<and> (\<forall>c \<in> set (format_2f (mean_score p) @ '','' @ format_2f (std_score p)).
               c \<noteq> newline \<and> c \<noteq> CHR '' ''))"
proof -
  have h: "status (run_nima (demo_fw (degenerate 10))
             (demo_process [''photo.jpg''] ''/opt/nima/run_nima.py'')) = 0"
    by (simp add: demo_run_degenerate)
  from h score_line_format_C4[OF h] show ?thesis by (rule conjI)
qed

theorem score_line_format_C4_counterexample:
  "status (run_nima demo_nan_fw (demo_process [''photo.jpg''] ''/opt/nima/run_nima.py'')) = 0
   \<and> out (run_nima demo_nan_fw (demo_process [''photo.jpg''] ''/opt/nima/run_nima.py''))
       = ''nan,nan'' @ [newline]
   \<and> \<not> two_decimals ''nan''"
  by (simp add: demo_run_nan not_two_decimals_nan)

text \<open>
  C5. For the uniform distribution (ten entries 0.1) the scorer returns mean 5.5 and
  standard deviation \<open>sqrt 8.25\<close>, which format to two decimals as 5.50 and 2.87.
\<close>

theorem uniform_scores_C5:
  assumes "decode_image fw image_path (224, 224) = Inr img"
    and "forward fw model (batch_of fw img) = Inr [map Finite uniform]"
  shows "fst (evaluate_image fw image_path model w) = Inr (Finite (11 / 2), Finite (sqrt (33 / 4)))
         \<and> format_2f (Finite (11 / 2)) = ''5.50'' \<and> format_2f (Finite (sqrt (33 / 4))) = ''2.87''"
  using assms by (simp add: evaluate_image_scores mean_uniform std_uniform format_550 format_287)

theorem uniform_scores_C5_witness:
  "decode_image (demo_fw uniform) ''photo.jpg'' (224, 224) = Inr ()
   \<and> forward (demo_fw uniform) (loaded ()) (batch_of (demo_fw uniform) ())
       = Inr [map Finite uniform]
   \<and> fst (evaluate_image (demo_fw uniform) ''photo.jpg'' (loaded ()) \<lparr>stdout = [], trace = []\<rparr>)
       = Inr (Finite (11 / 2), Finite (sqrt (33 / 4)))
   \<and> format_2f (Finite (11 / 2)) = ''5.50'' \<and> format_2f (Finite (sqrt (33 / 4))) = ''2.87''"
  using uniform_scores_C5[of "demo_fw uniform" "''photo.jpg''" "()" "loaded ()"
      "\<lparr>stdout = [], trace = []\<rparr>"]
  by (simp add: demo_evaluate)

text \<open>
  C6. For the distribution with all mass on bucket \<open>k\<close>, \<open>k\<close> being 1 or 10, the scorer
  returns mean \<open>k\<close> and standard deviation 0; formatted to two decimals these are 10.00
  and 0.00 for bucket 10, and 1.00 and 0.00 for bucket 1.
\<close>

theorem degenerate_scores_C6:
  assumes "k = 1 \<or> k = 10"
    and "decode_image fw image_path (224, 224) = Inr img"
    and "forward fw model (batch_of fw img) = Inr [map Finite (degenerate k)]"
  shows "fst (evaluate_image fw image_path model w) = Inr (Finite (real k), Finite 0)
         \<and> format_2f (Finite (real k)) = (if k = 10 then ''10.00'' else ''1.00'')
         \<and> format_2f (Finite 0) = ''0.00''"
proof -
  from assms(1) show ?thesis
  proof
    assume "k = 1"
    with assms(2,3) show ?thesis
      using mean_degenerate(2) std_degenerate(2)
      by (simp add: evaluate_image_scores format_small)
  next
    assume "k = 10"
    with assms(2,3) show ?thesis
      by (simp add: evaluate_image_scores mean_degenerate std_degenerate format_small)
  qed
qed

theorem degenerate_scores_C6_witness:
  "((10::nat) = 1 \<or> (10::nat) = 10)
   \<and> decode_image (demo_fw (degenerate 10)) ''photo.jpg'' (224, 224) = Inr ()
   \<and> forward (demo_fw (degenerate 10)) (loaded ()) (batch_of (demo_fw (degenerate 10)) ())
       = Inr [map Finite (degenerate 10)]
   \<and> fst (evaluate_image (demo_fw (degenerate 10)) ''photo.jpg'' (loaded ())
             \<lparr>stdout = [], trace = []\<rparr>) = Inr (Finite 10, Finite 0)
   \<and> fst (evaluate_image (demo_fw (degenerate 1)) ''photo.jpg'' (loaded ())
             \<lparr>stdout = [], trace = []\<rparr>) = Inr (Finite 1, Finite 0)
   \<and> format_2f (Finite 10) = ''10.00'' \<and> format_2f (Finite 1) = ''1.00''
   \<and> format_2f (Finite 0) = ''0.00''"
  using
    degenerate_scores_C6[of 10 "demo_fw (degenerate 10)" "''photo.jpg''" "()" "loaded ()"
      "\<lparr>stdout = [], trace = []\<rparr>"]
    degenerate_scores_C6[of 1 "demo_fw (degenerate 1)" "''photo.jpg''" "()" "loaded ()"
      "\<lparr>stdout = [], trace = []\<rparr>"]
  by (simp add: demo_evaluate)

text \<open>
  C7. In a run with one argument, the weights file that is read is the directory of the
  script (\<open>dirname(abspath(__file__))\<close>) joined with \<open>model\<close> and
  \<open>mobilenet_weights.h5\<close>, that is the directory, a slash unless it ends in one, and
  \<open>model/mobilenet_weights.h5\<close>. The path depends on the working directory only through
  the absolute location of the script: two runs of a script at the same location read the
  same weights file, and with an absolute \<open>__file__\<close> the working directory plays no part.
  No run writes a file.
\<close>

theorem weights_path_C7:
  assumes "length (argv pr) = 2" and "isabs (cwd pr)"
  shows "(ReadWeightsFile p \<in> set (events (run_nima fw pr)) \<longleftrightarrow>
            p = join (dirname (abspath (cwd pr) (script_file pr)))
                  [''model'', ''mobilenet_weights.h5''])
         \<and> join (dirname (abspath (cwd pr) (script_file pr))) [''model'', ''mobilenet_weights.h5'']
             = (if endswith (dirname (abspath (cwd pr) (script_file pr))) ''/''
                then dirname (abspath (cwd pr) (script_file pr))
                else dirname (abspath (cwd pr) (script_file pr)) @ ''/'')
               @ ''model/mobilenet_weights.h5''
         \<and> (length (argv pr') = 2
              \<and> abspath (cwd pr') (script_file pr') = abspath (cwd pr) (script_file pr) \<longrightarrow>
               (ReadWeightsFile p \<in> set (events (run_nima fw pr')) \<longleftrightarrow>
                ReadWeightsFile p \<in> set (events (run_nima fw pr))))
         \<and> (isabs (script_file pr) \<longrightarrow>
               (ReadWeightsFile p \<in> set (events (run_nima fw (pr\<lparr>cwd := c\<rparr>))) \<longleftrightarrow>
                ReadWeightsFile p \<in> set (events (run_nima fw pr))))
         \<and> WriteFile q \<notin> set (events (run_nima fw pr))"
proof (intro conjI impI)
  show "ReadWeightsFile p \<in> set (events (run_nima fw pr)) \<longleftrightarrow>
          p = join (dirname (abspath (cwd pr) (script_file pr)))
                [''model'', ''mobilenet_weights.h5'']"
    using weights_reads[OF assms(1), of p fw] by (simp add: weights_file_def)
  show "join (dirname (abspath (cwd pr) (script_file pr))) [''model'', ''mobilenet_weights.h5'']
             = (if endswith (dirname (abspath (cwd pr) (script_file pr))) ''/''
                then dirname (abspath (cwd pr) (script_file pr))
                else dirname (abspath (cwd pr) (script_file pr)) @ ''/'')
               @ ''model/mobilenet_weights.h5''"
    using weights_file_shape[of pr, unfolded weights_file_def] assms(2) by blast
  show "WriteFile q \<notin> set (events (run_nima fw pr))"
    by (rule no_writes)
next
  assume a: "length (argv pr') = 2
      \<and> abspath (cwd pr') (script_file pr') = abspath (cwd pr) (script_file pr)"
  then have "weights_file pr' = weights_file pr" by (simp add: weights_file_def)
  with a weights_reads[OF assms(1), of p fw] weights_reads[of pr' p fw]
  show "ReadWeightsFile p \<in> set (events (run_nima fw pr')) \<longleftrightarrow>
          ReadWeightsFile p \<in> set (events (run_nima fw pr))"
    by simp
next
  assume a: "isabs (script_file pr)"
  have "length (argv (pr\<lparr>cwd := c\<rparr>)) = 2" using assms(1) by simp
  then have "ReadWeightsFile p \<in> set (events (run_nima fw (pr\<lparr>cwd := c\<rparr>))) \<longleftrightarrow>
               p = weights_file (pr\<lparr>cwd := c\<rparr>)"
    by (rule weights_reads)
  with a weights_reads[OF assms(1), of p fw]
  show "ReadWeightsFile p \<in> set (events (run_nima fw (pr\<lparr>cwd := c\<rparr>))) \<longleftrightarrow>
          ReadWeightsFile p \<in> set (events (run_nima fw pr))"
    by (simp add: weights_file_cwd)
qed

theorem weights_path_C7_witness:
  "length (argv (demo_process [''photo.jpg''] ''/opt/nima/run_nima.py'')) = 2
   \<and> isabs (cwd (demo_process [''photo.jpg''] ''/opt/nima/run_nima.py''))
   \<and> isabs (script_file (demo_process [''photo.jpg''] ''/opt/nima/run_nima.py''))
   \<and> length (argv (demo_process [''photo.jpg''] ''../../opt/nima/run_nima.py'')) = 2
   \<and> abspath (cwd (demo_process [''photo.jpg''] ''../../opt/nima/run_nima.py''))
               (script_file (demo_process [''photo.jpg''] ''../../opt/nima/run_nima.py''))
       = abspath (cwd (demo_process [''photo.jpg''] ''/opt/nima/run_nima.py''))
                 (script_file (demo_process [''photo.jpg''] ''/opt/nima/run_nima.py''))
   \<and> ReadWeightsFile ''/opt/nima/model/mobilenet_weights.h5''
        \<in> set (events (run_nima (demo_fw uniform)
                          (demo_process [''photo.jpg''] ''/opt/nima/run_nima.py'')))
   \<and> ReadWeightsFile ''/opt/nima/model/mobilenet_weights.h5''
        \<in> set (events (run_nima (demo_fw uniform)
                          (demo_process [''photo.jpg''] ''../../opt/nima/run_nima.py'')))
   \<and> ReadWeightsFile ''/opt/nima/model/mobilenet_weights.h5''
        \<in> set (events (run_nima (demo_fw uniform)
                 ((demo_process [''photo.jpg''] ''/opt/nima/run_nima.py'')\<lparr>cwd := ''/tmp''\<rparr>)))
   \<and> WriteFile ''/opt/nima/model/mobilenet_weights.h5''
        \<notin> set (events (run_nima (demo_fw uniform)
                          (demo_process [''photo.jpg''] ''/opt/nima/run_nima.py'')))"
proof -
  have w: "join (dirname (abspath (cwd (demo_process [''photo.jpg''] ''/opt/nima/run_nima.py''))
                            (script_file (demo_process [''photo.jpg''] ''/opt/nima/run_nima.py''))))
             [''model'', ''mobilenet_weights.h5''] = ''/opt/nima/model/mobilenet_weights.h5''"
    using demo_weights_file[of "[''photo.jpg'']"] by (simp only: weights_file_def)
  have a: "length (argv (demo_process [''photo.jpg''] ''/opt/nima/run_nima.py'')) = 2"
    "length (argv (demo_process [''photo.jpg''] ''../../opt/nima/run_nima.py'')) = 2"
    by (simp_all add: demo_argv)
  have b: "isabs (cwd (demo_process [''photo.jpg''] ''/opt/nima/run_nima.py''))"
    "isabs (script_file (demo_process [''photo.jpg''] ''/opt/nima/run_nima.py''))"
    by (simp_all add: demo_process_def isabs_def startswith_def)
  have "abspath ''/home/user'' ''../../opt/nima/run_nima.py''
          = abspath ''/home/user'' ''/opt/nima/run_nima.py''"
    by code_simp
  then have c: "abspath (cwd (demo_process [''photo.jpg''] ''../../opt/nima/run_nima.py''))
               (script_file (demo_process [''photo.jpg''] ''../../opt/nima/run_nima.py''))
       = abspath (cwd (demo_process [''photo.jpg''] ''/opt/nima/run_nima.py''))
                 (script_file (demo_process [''photo.jpg''] ''/opt/nima/run_nima.py''))"
    by (simp add: demo_process_def)
  show ?thesis
    using weights_path_C7[OF a(1) b(1), of "''/opt/nima/model/mobilenet_weights.h5''"
        "demo_fw uniform" "demo_process [''photo.jpg''] ''../../opt/nima/run_nima.py''"
        "''/tmp''" "''/opt/nima/model/mobilenet_weights.h5''"] a b c
    unfolding w by blast
qed

text \<open>
  C8. Given a weights path, \<open>load_nima_model\<close> builds the network MobileNet backbone
  (no top, global average pooling), then dropout with rate 0.75, then a dense layer of 10
  units with softmax; it reads the weights from the given path into that model and returns
  it with its parameters set.
\<close>

theorem load_nima_model_topology_C8:
  assumes "read_weights fw weights_path
             (Apply (Dense 10 Softmax) (Apply (Dropout 0.75)
                (Apply (MobileNetLayers False (Some AvgPooling) None) (Input (None, None, 3)))))
           = Inr ws"
  shows "load_nima_model fw weights_path w =
           (Inr \<lparr>inputs = Input (None, None, 3),
                 outputs = Apply (Dense 10 Softmax) (Apply (Dropout 0.75)
                   (Apply (MobileNetLayers False (Some AvgPooling) None) (Input (None, None, 3)))),
                 params = Some ws\<rparr>,
            w\<lparr>trace := trace w @
               [BuildNetwork (Apply (Dense 10 Softmax) (Apply (Dropout 0.75)
                  (Apply (MobileNetLayers False (Some AvgPooling) None) (Input (None, None, 3))))),
                ReadWeightsFile weights_path]\<rparr>)"
  using assms by (simp add: load_nima_model_run loaded_def nima_net_def)

theorem load_nima_model_topology_C8_witness:
  "read_weights (demo_fw uniform) ''/opt/nima/model/mobilenet_weights.h5''
     (Apply (Dense 10 Softmax) (Apply (Dropout 0.75)
        (Apply (MobileNetLayers False (Some AvgPooling) None) (Input (None, None, 3)))))
     = Inr ()
   \<and> load_nima_model (demo_fw uniform) ''/opt/nima/model/mobilenet_weights.h5''
         \<lparr>stdout = [], trace = []\<rparr> =
       (Inr \<lparr>inputs = Input (None, None, 3),
             outputs = Apply (Dense 10 Softmax) (Apply (Dropout 0.75)
               (Apply (MobileNetLayers False (Some AvgPooling) None) (Input (None, None, 3)))),
             params = Some ()\<rparr>,
        \<lparr>stdout = [],
         trace = [BuildNetwork (Apply (Dense 10 Softmax) (Apply (Dropout 0.75)
                    (Apply (MobileNetLayers False (Some AvgPooling) None)
                       (Input (None, None, 3))))),
                  ReadWeightsFile ''/opt/nima/model/mobilenet_weights.h5'']\<rparr>)"
  using load_nima_model_topology_C8[of "demo_fw uniform" "''/opt/nima/model/mobilenet_weights.h5''"
      "()" "\<lparr>stdout = [], trace = []\<rparr>"]
  by (simp add: demo_fw_def)

text \<open>
  C9. Every run either prints a complete \<open>mean,std\<close> line and exits with status 0, or
  exits with a non-zero status having printed nothing (nothing but the usage line when the
  argument count is wrong). A weight-loading error and an image-decode error are not
  caught: they end the run as its uncaught exception.
\<close>

theorem all_or_nothing_C9:
  "((status (run_nima fw pr) = 0
       \<and> (\<exists>p. out (run_nima fw pr) =
                 format_2f (mean_score p) @ '','' @ format_2f (std_score p) @ [newline]))
     \<or> (status (run_nima fw pr) \<noteq> 0
       \<and> out (run_nima fw pr) = (if length (argv pr) \<noteq> 2 then usage @ [newline] else [])))
   \<and> (length (argv pr) = 2 \<and> read_weights fw (weights_file pr) nima_net = Inl e
          \<longrightarrow> uncaught (run_nima fw pr) = Some (Framework e))
   \<and> (length (argv pr) = 2 \<and> read_weights fw (weights_file pr) nima_net = Inr ws
          \<and> decode_image fw (argv pr ! 1) (224, 224) = Inl e'
          \<longrightarrow> uncaught (run_nima fw pr) = Some (Framework e'))"
proof (intro conjI impI)
  show "(status (run_nima fw pr) = 0
       \<and> (\<exists>p. out (run_nima fw pr) =
                 format_2f (mean_score p) @ '','' @ format_2f (std_score p) @ [newline]))
     \<or> (status (run_nima fw pr) \<noteq> 0
       \<and> out (run_nima fw pr) = (if length (argv pr) \<noteq> 2 then usage @ [newline] else []))"
  proof (cases rule: run_cases[where pr = pr and fw = fw])
    case usage
    then show ?thesis by (simp add: run_usage)
  next
    case (weights e)
    then show ?thesis by (simp add: run_weights_error)
  next
    case (image ws e)
    then show ?thesis by (simp add: run_image_error)
  next
    case (forward ws img e)
    then show ?thesis by (simp add: run_forward_error)
  next
    case (empty ws img)
    then show ?thesis by (simp add: run_empty_batch)
  next
    case (success ws img p ps)
    then have "run_nima fw pr =
     \<lparr>out = format_2f (mean_score p) @ '','' @ format_2f (std_score p) @ [newline],
      status = 0, uncaught = None,
      events = [BuildNetwork nima_net, ReadWeightsFile (weights_file pr),
                ReadImageFile (argv pr ! 1), Inference]\<rparr>" by (rule run_success)
    then have "status (run_nima fw pr) = 0" "out (run_nima fw pr) =
                 format_2f (mean_score p) @ '','' @ format_2f (std_score p) @ [newline]"
      by simp_all
    then show ?thesis by blast
  qed
next
  assume "length (argv pr) = 2 \<and> read_weights fw (weights_file pr) nima_net = Inl e"
  then show "uncaught (run_nima fw pr) = Some (Framework e)"
    by (simp add: run_weights_error)
next
  assume "length (argv pr) = 2 \<and> read_weights fw (weights_file pr) nima_net = Inr ws
          \<and> decode_image fw (argv pr ! 1) (224, 224) = Inl e'"
  then show "uncaught (run_nima fw pr) = Some (Framework e')"
    by (simp add: run_image_error)
qed

theorem all_or_nothing_C9_witness:
  "status (run_nima (demo_fw (degenerate 10))
             (demo_process [''photo.jpg''] ''/opt/nima/run_nima.py'')) = 0
   \<and> out (run_nima (demo_fw (degenerate 10))
             (demo_process [''photo.jpg''] ''/opt/nima/run_nima.py'')) = ''10.00,0.00'' @ [newline]
   \<and> length (argv (demo_process [''notes.txt''] ''/tmp/run_nima.py'')) = 2
   \<and> read_weights (demo_fw uniform)
         (weights_file (demo_process [''notes.txt''] ''/tmp/run_nima.py'')) nima_net
       = Inl (WeightsLoadError ''/tmp/model/mobilenet_weights.h5'')
   \<and> status (run_nima (demo_fw uniform) (demo_process [''notes.txt''] ''/tmp/run_nima.py'')) \<noteq> 0
   \<and> out (run_nima (demo_fw uniform) (demo_process [''notes.txt''] ''/tmp/run_nima.py'')) = []
   \<and> uncaught (run_nima (demo_fw uniform) (demo_process [''notes.txt''] ''/tmp/run_nima.py''))
       = Some (Framework (WeightsLoadError ''/tmp/model/mobilenet_weights.h5''))
   \<and> length (argv (demo_process [''notes.txt''] ''/opt/nima/run_nima.py'')) = 2
   \<and> read_weights (demo_fw uniform)
         (weights_file (demo_process [''notes.txt''] ''/opt/nima/run_nima.py'')) nima_net = Inr ()
   \<and> decode_image (demo_fw uniform)
         (argv (demo_process [''notes.txt''] ''/opt/nima/run_nima.py'') ! 1) (224, 224)
       = Inl (ImageDecodeError ''notes.txt'')
   \<and> out (run_nima (demo_fw uniform) (demo_process [''notes.txt''] ''/opt/nima/run_nima.py'')) = []
   \<and> uncaught (run_nima (demo_fw uniform) (demo_process [''notes.txt''] ''/opt/nima/run_nima.py''))
       = Some (Framework (ImageDecodeError ''notes.txt''))"
  using
    all_or_nothing_C9[of "demo_fw (degenerate 10)"
      "demo_process [''photo.jpg''] ''/opt/nima/run_nima.py''"]
    all_or_nothing_C9[of "demo_fw uniform" "demo_process [''notes.txt''] ''/tmp/run_nima.py''"
      "WeightsLoadError ''/tmp/model/mobilenet_weights.h5''"]
    all_or_nothing_C9[of "demo_fw uniform" "demo_process [''notes.txt''] ''/opt/nima/run_nima.py''"
      _ "()" "ImageDecodeError ''notes.txt''"]
  by (simp add: demo_run_degenerate demo_run_both_invalid demo_run_image_error demo_argv
      demo_weights_file demo_weights_file_tmp)
     (simp add: demo_fw_def)

text \<open>
  C10. The network is built and its weights are loaded strictly before the image file is
  opened: the events of every run are an initial part of the sequence build, read weights,
  read image, inference. When both the weights file and the image file are invalid, the
  run fails with the weight-loading error, prints nothing, and never reads the image.
\<close>

theorem weights_before_image_C10:
  "(\<exists>n. events (run_nima fw pr) =
          take n [BuildNetwork nima_net, ReadWeightsFile (weights_file pr),
                  ReadImageFile (argv pr ! 1), Inference])
   \<and> (length (argv pr) = 2 \<and> read_weights fw (weights_file pr) nima_net = Inl e
        \<and> decode_image fw (argv pr ! 1) (224, 224) = Inl e' \<longrightarrow>
        uncaught (run_nima fw pr) = Some (Framework e) \<and> status (run_nima fw pr) = 1
        \<and> out (run_nima fw pr) = []
        \<and> (\<forall>q. ReadImageFile q \<notin> set (events (run_nima fw pr))))"
proof
  let ?full = "[BuildNetwork nima_net, ReadWeightsFile (weights_file pr),
                  ReadImageFile (argv pr ! 1), Inference]"
  show "\<exists>n. events (run_nima fw pr) = take n ?full"
  proof (cases rule: run_cases[where pr = pr and fw = fw])
    case usage
    then have "events (run_nima fw pr) = take 0 ?full" by (simp add: run_usage)
    then show ?thesis ..
  next
    case (weights e)
    then have "events (run_nima fw pr) = take 2 ?full" by (simp add: run_weights_error)
    then show ?thesis ..
  next
    case (image ws e)
    then have "events (run_nima fw pr) = take 3 ?full" by (simp add: run_image_error)
    then show ?thesis ..
  next
    case (forward ws img e)
    then have "events (run_nima fw pr) = take 4 ?full" by (simp add: run_forward_error)
    then show ?thesis ..
  next
    case (empty ws img)
    then have "events (run_nima fw pr) = take 4 ?full" by (simp add: run_empty_batch)
    then show ?thesis ..
  next
    case (success ws img p ps)
    then have "events (run_nima fw pr) = take 4 ?full" by (simp add: run_success)
    then show ?thesis ..
  qed
next
  show "length (argv pr) = 2 \<and> read_weights fw (weights_file pr) nima_net = Inl e
        \<and> decode_image fw (argv pr ! 1) (224, 224) = Inl e' \<longrightarrow>
        uncaught (run_nima fw pr) = Some (Framework e) \<and> status (run_nima fw pr) = 1
        \<and> out (run_nima fw pr) = []
        \<and> (\<forall>q. ReadImageFile q \<notin> set (events (run_nima fw pr)))"
    by (simp add: run_weights_error)
qed

theorem weights_before_image_C10_witness:
  "length (argv (demo_process [''notes.txt''] ''/tmp/run_nima.py'')) = 2
   \<and> read_weights (demo_fw uniform) (weights_file (demo_process [''notes.txt''] ''/tmp/run_nima.py'')) nima_net
       = Inl (WeightsLoadError ''/tmp/model/mobilenet_weights.h5'')
   \<and> decode_image (demo_fw uniform) (argv (demo_process [''notes.txt''] ''/tmp/run_nima.py'') ! 1) (224, 224)
       = Inl (ImageDecodeError ''notes.txt'')
   \<and> uncaught (run_nima (demo_fw uniform) (demo_process [''notes.txt''] ''/tmp/run_nima.py''))
       = Some (Framework (WeightsLoadError ''/tmp/model/mobilenet_weights.h5''))
   \<and> (\<forall>q. ReadImageFile q \<notin> set (events (run_nima (demo_fw uniform) (demo_process [''notes.txt''] ''/tmp/run_nima.py''))))"
  using weights_before_image_C10[of "demo_fw uniform" "demo_process [''notes.txt''] ''/tmp/run_nima.py''"
      "WeightsLoadError ''/tmp/model/mobilenet_weights.h5''" "ImageDecodeError ''notes.txt''"]
  by (simp add: demo_run_both_invalid demo_argv demo_weights_file_tmp) (simp add: demo_fw_def)

end
